theory Spec2Isabelle
  imports
    Complex_Main
    "HOL-Library.Char_ord"
    "HOL-Library.List_Lexorder"
    "HOL-Library.Option_ord"
    "HOL-Library.Product_Lexorder"
begin

section \<open>Data model: the three tables of DatabaseApi.py\<close>

text \<open>
  The tables are the ones the DDL strings of \<^verbatim>\<open>add_chr_map\<close>, \<^verbatim>\<open>add_background\<close> and
  \<^verbatim>\<open>add_regions\<close> declare. A column holds a value of its declared type or NULL, so a
  nullable column is an \<open>option\<close> (\<open>None\<close> is NULL); \<open>TEXT\<close> is \<open>string\<close>, \<open>INTEGER\<close> is
  \<open>int\<close>, \<open>REAL\<close> is \<open>real\<close> (the score is only stored, never computed with).
  The program compares the integers of the columns and never adds or multiplies them, so
  their 64-bit range plays no part.
  The column \<open>end\<close> is written \<open>x_end\<close> / \<open>r_end\<close>; the prefixes \<open>x_\<close> and \<open>r_\<close> are the
  aliases \<^verbatim>\<open>background as x\<close> and \<^verbatim>\<open>regions as r\<close> of the view's SELECT.
\<close>

record chr_map_row =
  refseq :: "string option"
  igenomes :: "string option"
  ensembl :: "string option"
  ucsc :: "string option"
  mitra :: "string option"
  seqlength :: "int option"
  numbered :: "string option"

text \<open>
  A row of a background dataset as the row-set carries it (no \<open>id\<close> column: the id is
  assigned by the engine), and a row of the \<open>background\<close> table, which has the id.
\<close>

record background_df_row =
  x_chr :: "string option"
  x_start :: "int option"
  x_end :: "int option"
  x_depth :: "int option"
  x_strand :: "string option"
  x_annotation :: "string option"
  x_sample :: "string option"

record background_row = background_df_row +
  x_id :: int

record regions_df_row =
  r_chr :: "string option"
  r_start :: "int option"
  r_end :: "int option"
  r_name :: "string option"
  r_score :: "real option"
  r_strand :: "string option"
  r_sample :: "string option"
  r_common_name :: "string option"

record regions_row = regions_df_row +
  r_id :: int

section \<open>The views of create_region_background_view\<close>

subsection \<open>SQL comparisons: three-valued logic\<close>

text \<open>
  A comparison with NULL is NULL (\<open>None\<close>); \<open>AND\<close> is false as soon as one side is false,
  true when both are true, NULL otherwise. A WHERE clause keeps the rows whose predicate is
  true.
\<close>

definition sql_eq :: "'a option \<Rightarrow> 'a option \<Rightarrow> bool option" where
  "sql_eq a b = (case a of None \<Rightarrow> None
                 | Some u \<Rightarrow> (case b of None \<Rightarrow> None | Some v \<Rightarrow> Some (u = v)))"

definition sql_le :: "int option \<Rightarrow> int option \<Rightarrow> bool option" where
  "sql_le a b = (case a of None \<Rightarrow> None
                 | Some u \<Rightarrow> (case b of None \<Rightarrow> None | Some v \<Rightarrow> Some (u \<le> v)))"

definition sql_and :: "bool option \<Rightarrow> bool option \<Rightarrow> bool option" where
  "sql_and p q =
     (if p = Some False \<or> q = Some False then Some False
      else if p = Some True \<and> q = Some True then Some True
      else None)"

text \<open>\<^verbatim>\<open>v BETWEEN lo AND hi\<close> is \<^verbatim>\<open>v >= lo AND v <= hi\<close>.\<close>

definition sql_between :: "int option \<Rightarrow> int option \<Rightarrow> int option \<Rightarrow> bool option" where
  "sql_between v lo hi = sql_and (sql_le lo v) (sql_le v hi)"

subsection \<open>FROM regions as r LEFT JOIN background as x\<close>

text \<open>
  The join has no ON clause: every region row is paired with every background row, and a
  region row is paired with an all-NULL background row (\<open>None\<close>) when there is no
  background row at all. A column of \<open>x\<close> read in such a pair is NULL.
\<close>

definition left_join :: "regions_row list \<Rightarrow> background_row list \<Rightarrow>
    (regions_row \<times> background_row option) list" where
  "left_join rs xs =
     concat (map (\<lambda>r. if xs = [] then [(r, None)] else map (\<lambda>x. (r, Some x)) xs) rs)"

definition x_col :: "(background_row \<Rightarrow> 'a option) \<Rightarrow> background_row option \<Rightarrow> 'a option" where
  "x_col f xo = (case xo of None \<Rightarrow> None | Some x \<Rightarrow> f x)"

text \<open>\<^verbatim>\<open>WHERE (x.chr = r.chr AND x.start BETWEEN r.start AND r.end)\<close>\<close>

definition where_clause :: "regions_row \<times> background_row option \<Rightarrow> bool option" where
  "where_clause j =
     (case j of (r, xo) \<Rightarrow>
        sql_and (sql_eq (x_col x_chr xo) (r_chr r))
                (sql_between (x_col x_start xo) (r_start r) (r_end r)))"

definition hits :: "regions_row list \<Rightarrow> background_row list \<Rightarrow>
    (regions_row \<times> background_row option) list" where
  "hits rs xs = filter (\<lambda>j. where_clause j = Some True) (left_join rs xs)"

text \<open>A region row and a background row match when the WHERE clause is true of the pair.\<close>

definition matches :: "regions_row \<Rightarrow> background_row \<Rightarrow> bool" where
  "matches r x = (where_clause (r, Some x) = Some True)"

subsection \<open>GROUP BY, COUNT and ORDER BY\<close>

text \<open>
  \<open>group_by f\<close> splits a list of rows into the groups of equal key \<open>f\<close> (NULL keys are
  equal to each other in GROUP BY, as \<open>None = None\<close> is here). Each group is returned with its
  first row, from which the columns of the output row are read: the rows of a group agree
  on the grouping columns, and on \<open>name\<close> and \<open>common_name\<close> too as long as region ids
  are unique. SQL fixes no order of the groups; the model lists them by first appearance.
\<close>

fun group_by :: "('a \<Rightarrow> 'k) \<Rightarrow> 'a list \<Rightarrow> ('a \<times> 'a list) list" where
  "group_by f [] = []"
| "group_by f (a # as) =
     (a, a # filter (\<lambda>b. f b = f a) as) # group_by f (filter (\<lambda>b. f b \<noteq> f a) as)"

text \<open>
  \<^verbatim>\<open>GROUP BY regions_sample, background_sample, r.chr, r.start, r.end, r.id\<close>
\<close>

type_synonym group_key =
  "string option \<times> string option \<times> string option \<times> int option \<times> int option \<times> int"

definition group_key :: "regions_row \<times> background_row option \<Rightarrow> group_key" where
  "group_key j =
     (case j of (r, xo) \<Rightarrow>
        (r_sample r, x_col x_sample xo, r_chr r, r_start r, r_end r, r_id r))"

record agg_row =
  v_chr :: "string option"
  v_start :: "int option"
  v_end :: "int option"
  background_hops :: nat
  regions_sample :: "string option"
  background_sample :: "string option"
  region_id :: int
  associated_feature_systematic_id :: "string option"
  associated_feature_common_name :: "string option"

definition select_row ::
    "(regions_row \<times> background_row option) \<times> (regions_row \<times> background_row option) list
     \<Rightarrow> agg_row" where
  "select_row g =
     (case g of ((r, xo), members) \<Rightarrow>
        \<lparr>v_chr = r_chr r,
         v_start = r_start r,
         v_end = r_end r,
         background_hops = length members,
         regions_sample = r_sample r,
         background_sample = x_col x_sample xo,
         region_id = r_id r,
         associated_feature_systematic_id = r_name r,
         associated_feature_common_name = r_common_name r\<rparr>)"

text \<open>
  \<^verbatim>\<open>ORDER BY regions_sample, background_sample, chr, start\<close>: ascending, NULL before every
  value, text by its bytes (a proper prefix first), integers by value. These are the orders
  of \<open>option\<close>, \<open>string\<close> and \<open>int\<close>, taken lexicographically on the four columns. Rows
  with equal keys stay in the order of their groups.
\<close>

type_synonym order_key = "string option \<times> string option \<times> string option \<times> int option"

definition order_key :: "agg_row \<Rightarrow> order_key" where
  "order_key v = (regions_sample v, background_sample v, v_chr v, v_start v)"

definition region_background_agg :: "regions_row list \<Rightarrow> background_row list \<Rightarrow> agg_row list" where
  "region_background_agg rs xs =
     sort_key order_key (map select_row (group_by group_key (hits rs xs)))"

text \<open>The grouping columns of an output row.\<close>

definition view_key :: "agg_row \<Rightarrow> group_key" where
  "view_key v =
     (regions_sample v, background_sample v, v_chr v, v_start v, v_end v, region_id v)"

text \<open>
  \<^verbatim>\<open>CREATE VIEW "total_bg_hops" AS SELECT sample, COUNT(*) as hops FROM background GROUP BY sample\<close>
\<close>

record total_row =
  sample :: "string option"
  hops :: nat

definition total_bg_hops :: "background_row list \<Rightarrow> total_row list" where
  "total_bg_hops xs =
     map (\<lambda>g. case g of (x, members) \<Rightarrow> \<lparr>sample = x_sample x, hops = length members\<rparr>)
       (group_by x_sample xs)"

text \<open>
  The join as the specification describes it: the pairs of a region row and a background
  row that match (an inner join over the match predicate).
\<close>

definition inner_join_hits :: "regions_row list \<Rightarrow> background_row list \<Rightarrow>
    (regions_row \<times> background_row option) list" where
  "inner_join_hits rs xs =
     concat (map (\<lambda>r. map (\<lambda>x. (r, Some x)) (filter (matches r) xs)) rs)"


section \<open>The database and its errors\<close>

text \<open>
  The database file holds at most the objects this program creates: the three tables (\<open>None\<close>
  when the table does not exist, otherwise its rows in rowid order), the two indexes and the
  two views. Foreign keys are declared but SQLite does not enforce them unless a pragma
  turns them on, and the program never does; they put no condition on an insert.
\<close>

record database =
  chr_map :: "chr_map_row list option"
  background :: "background_row list option"
  background_index :: bool
  regions :: "regions_row list option"
  regions_index :: bool
  view_region_background_agg :: bool
  view_total_bg_hops :: bool

definition empty_database :: database where
  "empty_database =
     \<lparr>chr_map = None, background = None, background_index = False, regions = None,
      regions_index = False, view_region_background_agg = False, view_total_bg_hops = False\<rparr>"

type_synonym path = "string list"

datatype sqlite_error =
    Table_exists string
  | Index_exists string
  | Not_null_failed string
  | Unique_failed string
  | Unable_to_open
  | Not_a_database

datatype py_error =
    AttributeError string
  | FileNotFoundError path
  | OperationalError sqlite_error
  | IntegrityError sqlite_error
  | DatabaseError sqlite_error

text \<open>
  A statement or a method either raises, leaving the state it had reached (\<open>Inl\<close>), or
  returns with the new state (\<open>Inr\<close>). Statements run in sequence until one raises.
\<close>

type_synonym 's result = "py_error \<times> 's + 's"

fun run_steps :: "('s \<Rightarrow> 's result) list \<Rightarrow> 's \<Rightarrow> 's result" where
  "run_steps [] s = Inr s"
| "run_steps (f # fs) s = (case f s of Inl err \<Rightarrow> Inl err | Inr s' \<Rightarrow> run_steps fs s')"

section \<open>Bulk loading: to_sql with if_exists='append', index=False\<close>

subsection \<open>chr_map\<close>

text \<open>
  The insert of one row-set into the existing table \<open>chr_map\<close>. The schema checks
  \<^verbatim>\<open>"seqlength" INTEGER NOT NULL\<close> and the six \<^verbatim>\<open>UNIQUE\<close> columns (\<open>ucsc\<close>, the primary key of
  a rowid table, is checked as a unique column; NULLs never clash). The rows go in one by
  one in the row-set's order, under their own column names; the first row that fails raises
  and the insert is rolled back as a whole.
\<close>

definition clash :: "(chr_map_row \<Rightarrow> string option) \<Rightarrow> chr_map_row \<Rightarrow> chr_map_row \<Rightarrow> bool" where
  "clash col old new = (col new \<noteq> None \<and> col old = col new)"

definition unique_conflict :: "chr_map_row list \<Rightarrow> chr_map_row \<Rightarrow> bool" where
  "unique_conflict tbl new =
     list_ex (\<lambda>old. clash refseq old new \<or> clash igenomes old new \<or> clash ensembl old new \<or>
                     clash ucsc old new \<or> clash mitra old new \<or> clash numbered old new) tbl"

fun to_sql_chr_map :: "chr_map_row list \<Rightarrow> chr_map_row list \<Rightarrow> py_error + chr_map_row list" where
  "to_sql_chr_map tbl [] = Inr tbl"
| "to_sql_chr_map tbl (row # rest) =
     (if seqlength row = None then Inl (IntegrityError (Not_null_failed ''chr_map.seqlength''))
      else if unique_conflict tbl row then Inl (IntegrityError (Unique_failed ''chr_map''))
      else to_sql_chr_map (tbl @ [row]) rest)"

text \<open>
  \<^verbatim>\<open>add_chr_map\<close>: CREATE TABLE (no IF NOT EXISTS), then the insert of the row-set.
\<close>

definition add_chr_map :: "chr_map_row list \<Rightarrow> database \<Rightarrow> database result" where
  "add_chr_map chr_map_df db =
     (case chr_map db of
        Some tbl \<Rightarrow> Inl (OperationalError (Table_exists ''chr_map''), db)
      | None \<Rightarrow>
          (case to_sql_chr_map [] chr_map_df of
             Inl err \<Rightarrow> Inl (err, db\<lparr>chr_map := Some []\<rparr>)
           | Inr tbl \<Rightarrow> Inr (db\<lparr>chr_map := Some tbl\<rparr>)))"

subsection \<open>background\<close>

text \<open>
  \<^verbatim>\<open>"id" INTEGER NOT NULL ... PRIMARY KEY("id")\<close> makes \<open>id\<close> the rowid: a row inserted
  without an id gets the largest id of the table plus one, and 1 in an empty table. (Ids are
  unbounded integers here; the engine's are 64-bit, a limit no table of this program
  reaches.)
\<close>

definition next_rowid :: "int list \<Rightarrow> int" where
  "next_rowid ids = (if ids = [] then 1 else Max (set ids) + 1)"

definition stored_background :: "int \<Rightarrow> background_df_row \<Rightarrow> background_row" where
  "stored_background i d =
     \<lparr>x_chr = x_chr d, x_start = x_start d, x_end = x_end d, x_depth = x_depth d,
      x_strand = x_strand d, x_annotation = x_annotation d, x_sample = x_sample d, x_id = i\<rparr>"

text \<open>The columns of a stored row that came from the row-set (all but the id).\<close>

definition background_data :: "background_row \<Rightarrow> background_df_row" where
  "background_data x =
     \<lparr>x_chr = x_chr x, x_start = x_start x, x_end = x_end x, x_depth = x_depth x,
      x_strand = x_strand x, x_annotation = x_annotation x, x_sample = x_sample x\<rparr>"

fun to_sql_background :: "background_row list \<Rightarrow> background_df_row list \<Rightarrow> background_row list" where
  "to_sql_background tbl [] = tbl"
| "to_sql_background tbl (d # ds) =
     to_sql_background (tbl @ [stored_background (next_rowid (map x_id tbl)) d]) ds"

text \<open>
  \<^verbatim>\<open>add_background\<close>: CREATE TABLE, CREATE INDEX, then one insert per row-set of the list,
  in the list's order. Each statement is committed as it runs.
\<close>

definition add_background :: "background_df_row list list \<Rightarrow> database \<Rightarrow> database result" where
  "add_background df_list db =
     (case background db of
        Some tbl \<Rightarrow> Inl (OperationalError (Table_exists ''background''), db)
      | None \<Rightarrow>
          if background_index db
          then Inl (OperationalError (Index_exists ''background_index''),
                    db\<lparr>background := Some []\<rparr>)
          else Inr (db\<lparr>background := Some (foldl to_sql_background [] df_list),
                       background_index := True\<rparr>))"

subsection \<open>regions\<close>

text \<open>
  A regions row-set may lack the column \<open>common_name\<close>; the insert then names no such
  column and the table's \<^verbatim>\<open>DEFAULT 'none'\<close> fills it. A row-set that has the column stores
  its values, NULL included.
\<close>

record regions_df =
  has_common_name :: bool
  df_rows :: "regions_df_row list"

definition stored_common_name :: "regions_df \<Rightarrow> regions_df_row \<Rightarrow> string option" where
  "stored_common_name df d = (if has_common_name df then r_common_name d else Some ''none'')"

definition stored_region :: "regions_df \<Rightarrow> int \<Rightarrow> regions_df_row \<Rightarrow> regions_row" where
  "stored_region df i d =
     \<lparr>r_chr = r_chr d, r_start = r_start d, r_end = r_end d, r_name = r_name d,
      r_score = r_score d, r_strand = r_strand d, r_sample = r_sample d,
      r_common_name = stored_common_name df d, r_id = i\<rparr>"

definition regions_data :: "regions_row \<Rightarrow> regions_df_row" where
  "regions_data r =
     \<lparr>r_chr = r_chr r, r_start = r_start r, r_end = r_end r, r_name = r_name r,
      r_score = r_score r, r_strand = r_strand r, r_sample = r_sample r,
      r_common_name = r_common_name r\<rparr>"

text \<open>The rows of a row-set as the table holds them, the id apart.\<close>

definition df_data :: "regions_df \<Rightarrow> regions_df_row list" where
  "df_data df = map (\<lambda>d. d\<lparr>r_common_name := stored_common_name df d\<rparr>) (df_rows df)"

fun insert_regions :: "regions_df \<Rightarrow> regions_row list \<Rightarrow> regions_df_row list \<Rightarrow> regions_row list" where
  "insert_regions df tbl [] = tbl"
| "insert_regions df tbl (d # ds) =
     insert_regions df (tbl @ [stored_region df (next_rowid (map r_id tbl)) d]) ds"

definition to_sql_regions :: "regions_row list \<Rightarrow> regions_df \<Rightarrow> regions_row list" where
  "to_sql_regions tbl df = insert_regions df tbl (df_rows df)"

definition add_regions :: "regions_df list \<Rightarrow> database \<Rightarrow> database result" where
  "add_regions df_list db =
     (case regions db of
        Some tbl \<Rightarrow> Inl (OperationalError (Table_exists ''regions''), db)
      | None \<Rightarrow>
          if regions_index db
          then Inl (OperationalError (Index_exists ''regions_index''),
                    db\<lparr>regions := Some []\<rparr>)
          else Inr (db\<lparr>regions := Some (foldl to_sql_regions [] df_list),
                       regions_index := True\<rparr>))"

subsection \<open>Views\<close>

text \<open>
  \<^verbatim>\<open>create_region_background_view\<close>: DROP VIEW IF EXISTS and CREATE VIEW, for each of the
  two views. A view stores its SELECT; its rows are computed from the tables when it is
  read, by \<open>region_background_agg\<close> and \<open>total_bg_hops\<close> above.
\<close>

definition create_region_background_view :: "database \<Rightarrow> database result" where
  "create_region_background_view db =
     Inr (db\<lparr>view_region_background_agg := True, view_total_bg_hops := True\<rparr>)"

section \<open>The constructor of DatabaseAPINew\<close>

text \<open>
  Modelled from the spec: the class \<^verbatim>\<open>Resources\<close> (module compileyeastdatabase.Resources) is
  not among the sources. It supplies the five bundled datasets; here they are the row-sets
  that \<^verbatim>\<open>pd.read_csv\<close> makes of them, with the columns of section 3 of the specification
  (the id of a background or regions row is assigned by the engine, so the row-sets carry
  none). Its own constructor is taken to touch neither the file system nor the database.
\<close>

record resources =
  yeast_chr_map :: "chr_map_row list"
  yeast_background_adh1 :: "background_df_row list"
  yeast_background_sir4 :: "background_df_row list"
  yeast_promoters_yiming :: regions_df
  yeast_promoters_not_orf :: regions_df

text \<open>
  The file system: what is at each absolute path (a path is the list of its parts), and
  how a path object resolves to an absolute path (\<^verbatim>\<open>Path.resolve\<close>: the working directory,
  \<open>..\<close> and symbolic links are the file system's business). The argument \<open>db_loc\<close> is
  whatever object the caller passes; only a path object has \<^verbatim>\<open>resolve\<close>.
\<close>

datatype fs_entry = Directory | Database_file database | Other_file

record filesystem =
  resolve :: "path \<Rightarrow> path"
  entries :: "path \<Rightarrow> fs_entry option"

datatype py_object = PosixPath path | Str string | NoneType

text \<open>\<^verbatim>\<open>db_loc.parent\<close> of an absolute path: the path without its last part; the root is its own parent.\<close>

definition parent :: "path \<Rightarrow> path" where
  "parent p = (if length p \<le> 1 then p else butlast p)"

text \<open>\<^verbatim>\<open>os.path.exists\<close>\<close>

definition path_exists :: "filesystem \<Rightarrow> path \<Rightarrow> bool" where
  "path_exists fs p = (entries fs p \<noteq> None)"

text \<open>
  The engine is created lazily; the file is opened by the first \<^verbatim>\<open>engine.connect()\<close>, in
  \<^verbatim>\<open>add_chr_map\<close>. SQLite opens an existing database file, creates a missing file in an
  existing directory as an empty database, and fails otherwise.
\<close>

definition connect :: "filesystem \<Rightarrow> path \<Rightarrow> py_error + database" where
  "connect fs p =
     (case entries fs p of
        Some (Database_file db) \<Rightarrow> Inr db
      | Some Directory \<Rightarrow> Inl (OperationalError Unable_to_open)
      | Some Other_file \<Rightarrow> Inl (DatabaseError Not_a_database)
      | None \<Rightarrow>
          if entries fs (parent p) = Some Directory then Inr empty_database
          else Inl (OperationalError Unable_to_open))"

definition write_database :: "filesystem \<Rightarrow> path \<Rightarrow> database \<Rightarrow> filesystem" where
  "write_database fs p db = fs\<lparr>entries := (entries fs)(p := Some (Database_file db))\<rparr>"

text \<open>
  The body of the constructor after the engine is there (lines 62 to 66): the three loading
  methods, each given the row-sets read from the resources, then the views.
\<close>

definition provision :: "resources \<Rightarrow> database \<Rightarrow> database result" where
  "provision res =
     run_steps
       [add_chr_map (yeast_chr_map res),
        add_background [yeast_background_adh1 res, yeast_background_sir4 res],
        add_regions [yeast_promoters_yiming res, yeast_promoters_not_orf res],
        create_region_background_view]"

definition DatabaseAPINew_init :: "resources \<Rightarrow> filesystem \<Rightarrow> py_object \<Rightarrow> filesystem result" where
  "DatabaseAPINew_init res fs db_loc =
     (case db_loc of
        PosixPath loc \<Rightarrow>
          (let p = resolve fs loc in
           if \<not> path_exists fs (parent p) then Inl (FileNotFoundError p, fs)
           else
             (case connect fs p of
                Inl err \<Rightarrow> Inl (err, fs)
              | Inr db \<Rightarrow>
                  (case provision res db of
                     Inl (err, db') \<Rightarrow> Inl (err, write_database fs p db')
                   | Inr db' \<Rightarrow> Inr (write_database fs p db'))))
      | Str s \<Rightarrow> Inl (AttributeError ''db_loc must be a pathlib.PosixPath object'', fs)
      | NoneType \<Rightarrow> Inl (AttributeError ''db_loc must be a pathlib.PosixPath object'', fs))"

text \<open>The errors that the validation of \<open>db_loc\<close> raises.\<close>

definition is_path_error :: "py_error \<Rightarrow> bool" where
  "is_path_error e =
     (case e of AttributeError m \<Rightarrow> True | FileNotFoundError p \<Rightarrow> True | _ \<Rightarrow> False)"

section \<open>The scenario of section 8 of the specification\<close>

definition scenario_chr_map :: chr_map_row where
  "scenario_chr_map =
     \<lparr>refseq = Some ''chrI'', igenomes = Some ''chrI'', ensembl = Some ''chrI'',
      ucsc = Some ''chrI'', mitra = Some ''chrI'', seqlength = Some 230218,
      numbered = Some ''chrI''\<rparr>"

definition scenario_background_df :: "int \<Rightarrow> background_df_row" where
  "scenario_background_df s =
     \<lparr>x_chr = Some ''chrI'', x_start = Some s, x_end = Some s, x_depth = None,
      x_strand = None, x_annotation = None, x_sample = Some ''bg1''\<rparr>"

definition scenario_regions_df :: regions_df where
  "scenario_regions_df =
     \<lparr>has_common_name = False,
      df_rows = [\<lparr>r_chr = Some ''chrI'', r_start = Some 50, r_end = Some 200,
                  r_name = Some ''YAL001'', r_score = None, r_strand = None,
                  r_sample = Some ''reg1'', r_common_name = None\<rparr>]\<rparr>"

definition scenario_background :: "int \<Rightarrow> background_row" where
  "scenario_background s = stored_background 1 (scenario_background_df s)"

definition scenario_region :: regions_row where
  "scenario_region =
     \<lparr>r_chr = Some ''chrI'', r_start = Some 50, r_end = Some 200,
      r_name = Some ''YAL001'', r_score = None, r_strand = None,
      r_sample = Some ''reg1'', r_common_name = Some ''none'', r_id = 1\<rparr>"

definition scenario_adh1 :: "background_df_row list" where
  "scenario_adh1 = [scenario_background_df 100]"

definition scenario_sir4 :: "background_df_row list" where
  "scenario_sir4 = [scenario_background_df 300]"

definition scenario_resources :: resources where
  "scenario_resources =
     \<lparr>yeast_chr_map = [scenario_chr_map],
      yeast_background_adh1 = scenario_adh1,
      yeast_background_sir4 = scenario_sir4,
      yeast_promoters_yiming = scenario_regions_df,
      yeast_promoters_not_orf = \<lparr>has_common_name = True, df_rows = []\<rparr>\<rparr>"

definition scenario_tmp :: path where
  "scenario_tmp = [''/'', ''tmp'']"

definition scenario_db_loc :: path where
  "scenario_db_loc = [''/'', ''tmp'', ''test.db'']"

text \<open>A file system with the directory \<^verbatim>\<open>/tmp\<close> and nothing else; paths resolve to themselves.\<close>

definition scenario_fs :: filesystem where
  "scenario_fs = \<lparr>resolve = (\<lambda>p. p), entries = Map.empty(scenario_tmp \<mapsto> Directory)\<rparr>"

definition scenario_provisioned :: database where
  "scenario_provisioned =
     \<lparr>chr_map = Some [scenario_chr_map],
      background = Some [scenario_background 100, stored_background 2 (scenario_background_df 300)],
      background_index = True,
      regions = Some [scenario_region],
      regions_index = True,
      view_region_background_agg = True,
      view_total_bg_hops = True\<rparr>"

text \<open>The database after one call of \<^verbatim>\<open>add_background\<close> with a single one-row dataset.\<close>

definition scenario_loaded :: database where
  "scenario_loaded =
     \<lparr>chr_map = None, background = Some [scenario_background 100], background_index = True,
      regions = None, regions_index = False, view_region_background_agg = False,
      view_total_bg_hops = False\<rparr>"

section \<open>Properties of the views\<close>

subsection \<open>Grouping\<close>

lemma group_by_members:
  "(a, g) \<in> set (group_by f xs) \<Longrightarrow> a \<in> set xs \<and> g = filter (\<lambda>b. f b = f a) xs"
proof (induction f xs rule: group_by.induct)
  case (1 f)
  then show ?case by simp
next
  case (2 f b bs)
  show ?case
  proof (cases "(a, g) = (b, b # filter (\<lambda>c. f c = f b) bs)")
    case True
    then show ?thesis by simp
  next
    case False
    with "2.prems" have "(a, g) \<in> set (group_by f (filter (\<lambda>c. f c \<noteq> f b) bs))"
      by auto
    from "2.IH" [OF this]
    have a: "a \<in> set bs" and ne: "f a \<noteq> f b"
      and g: "g = filter (\<lambda>c. f c = f a) (filter (\<lambda>c. f c \<noteq> f b) bs)"
      by auto
    have "filter (\<lambda>c. f c = f a) (filter (\<lambda>c. f c \<noteq> f b) bs)
          = filter (\<lambda>c. f c \<noteq> f b \<and> f c = f a) bs"
      by simp
    also have "\<dots> = filter (\<lambda>c. f c = f a) bs"
      by (rule filter_cong) (use ne in auto)
    finally have "filter (\<lambda>c. f c = f a) (filter (\<lambda>c. f c \<noteq> f b) bs)
          = filter (\<lambda>c. f c = f a) bs" .
    with a ne g show ?thesis by auto
  qed
qed

lemma group_by_keys_distinct: "distinct (map (\<lambda>g. f (fst g)) (group_by f xs))"
proof (induction f xs rule: group_by.induct)
  case (1 f)
  then show ?case by simp
next
  case (2 f b bs)
  have "f b \<notin> (\<lambda>g. f (fst g)) ` set (group_by f (filter (\<lambda>c. f c \<noteq> f b) bs))"
  proof
    assume "f b \<in> (\<lambda>g. f (fst g)) ` set (group_by f (filter (\<lambda>c. f c \<noteq> f b) bs))"
    then obtain a g where ag: "(a, g) \<in> set (group_by f (filter (\<lambda>c. f c \<noteq> f b) bs))"
      and k: "f b = f a" by auto
    from group_by_members [OF ag] have "f a \<noteq> f b" by simp
    with k show False by simp
  qed
  with "2.IH" show ?case by simp
qed

lemma group_by_keys_complete:
  "x \<in> set xs \<Longrightarrow> f x \<in> (\<lambda>g. f (fst g)) ` set (group_by f xs)"
proof (induction f xs rule: group_by.induct)
  case (1 f)
  then show ?case by simp
next
  case (2 f b bs)
  show ?case
  proof (cases "f x = f b")
    case True
    then show ?thesis by simp
  next
    case False
    with "2.prems" have "x \<in> set (filter (\<lambda>c. f c \<noteq> f b) bs)" by auto
    from "2.IH" [OF this] show ?thesis by auto
  qed
qed

lemma distinct_key_filter_single:
  "distinct (map h ys) \<Longrightarrow> k \<in> h ` set ys \<Longrightarrow> \<exists>y. filter (\<lambda>z. h z = k) ys = [y]"
proof (induction ys)
  case Nil
  then show ?case by simp
next
  case (Cons y ys)
  show ?case
  proof (cases "h y = k")
    case True
    with Cons.prems have "h y \<notin> h ` set ys" by simp
    with True have "\<forall>z \<in> set ys. h z \<noteq> k" by (metis imageI)
    then have "filter (\<lambda>z. h z = k) ys = []" by (simp add: filter_empty_conv)
    with True show ?thesis by simp
  next
    case False
    with Cons show ?thesis by auto
  qed
qed

lemma group_by_single:
  assumes "x \<in> set xs"
  shows "\<exists>a. filter (\<lambda>g. f (fst g) = f x) (group_by f xs) = [(a, filter (\<lambda>b. f b = f x) xs)]
             \<and> f a = f x"
proof -
  from distinct_key_filter_single [where h = "\<lambda>g. f (fst g)" and ys = "group_by f xs"
      and k = "f x"] group_by_keys_distinct [of f xs] group_by_keys_complete [OF assms, of f]
  obtain y where y: "filter (\<lambda>g. f (fst g) = f x) (group_by f xs) = [y]" by blast
  obtain a g where ag: "y = (a, g)" by (cases y)
  have "y \<in> set (filter (\<lambda>g. f (fst g) = f x) (group_by f xs))" using y by simp
  then have mem: "(a, g) \<in> set (group_by f xs)" and k: "f a = f x" using ag by auto
  from group_by_members [OF mem] k have "g = filter (\<lambda>b. f b = f x) xs" by simp
  with y ag k show ?thesis by simp
qed

lemma group_by_absent:
  assumes "k \<notin> f ` set xs"
  shows "filter (\<lambda>g. f (fst g) = k) (group_by f xs) = []"
proof -
  have "\<forall>g \<in> set (group_by f xs). f (fst g) \<noteq> k"
  proof
    fix g assume g: "g \<in> set (group_by f xs)"
    obtain a m where "g = (a, m)" by (cases g)
    with g group_by_members [of a m f xs] have "a \<in> set xs" "fst g = a" by auto
    with assms show "f (fst g) \<noteq> k" by auto
  qed
  then show ?thesis by (simp add: filter_empty_conv)
qed

subsection \<open>The match predicate and the join\<close>

lemma sql_and_True: "sql_and p q = Some True \<longleftrightarrow> p = Some True \<and> q = Some True"
  by (simp add: sql_and_def)

lemma sql_eq_True: "sql_eq a b = Some True \<longleftrightarrow> (\<exists>u. a = Some u \<and> b = Some u)"
  by (cases a; cases b; auto simp: sql_eq_def)

lemma sql_le_True:
  "sql_le a b = Some True \<longleftrightarrow> (\<exists>u v. a = Some u \<and> b = Some v \<and> u \<le> v)"
  by (cases a; cases b; simp add: sql_le_def)

lemma matches_iff:
  "matches r x \<longleftrightarrow>
     (\<exists>c lo hi s. x_chr x = Some c \<and> r_chr r = Some c \<and> r_start r = Some lo \<and>
        r_end r = Some hi \<and> x_start x = Some s \<and> lo \<le> s \<and> s \<le> hi)"
proof -
  have "matches r x \<longleftrightarrow>
      sql_eq (x_chr x) (r_chr r) = Some True \<and> sql_le (r_start r) (x_start x) = Some True \<and>
      sql_le (x_start x) (r_end r) = Some True"
    by (simp add: matches_def where_clause_def x_col_def sql_between_def sql_and_True)
  also have "\<dots> \<longleftrightarrow>
     (\<exists>c lo hi s. x_chr x = Some c \<and> r_chr r = Some c \<and> r_start r = Some lo \<and>
        r_end r = Some hi \<and> x_start x = Some s \<and> lo \<le> s \<and> s \<le> hi)"
    unfolding sql_eq_True sql_le_True by auto
  finally show ?thesis .
qed

lemma sql_le_None: "sql_le None b = None" "sql_le a None = None"
  by (cases a; simp add: sql_le_def)+

lemma where_clause_null_row: "where_clause (r, None) = None"
  by (simp add: where_clause_def x_col_def sql_and_def sql_eq_def sql_between_def sql_le_None)

lemma hits_inner_join: "hits rs xs = inner_join_hits rs xs"
proof -
  have m: "matches r = (\<lambda>x. where_clause (r, Some x) = Some True)" for r
    by (simp add: fun_eq_iff matches_def)
  have one: "filter (\<lambda>j. where_clause j = Some True)
               (if xs = [] then [(r, None)] else map (\<lambda>x. (r, Some x)) xs)
             = map (\<lambda>x. (r, Some x)) (filter (matches r) xs)" for r
    by (simp add: where_clause_null_row filter_map comp_def m)
  show ?thesis
    unfolding hits_def left_join_def inner_join_hits_def
    by (induction rs) (simp_all add: one)
qed

lemma hits_iff:
  "j \<in> set (hits rs xs) \<longleftrightarrow>
     (\<exists>r x. j = (r, Some x) \<and> r \<in> set rs \<and> x \<in> set xs \<and> matches r x)"
  unfolding hits_inner_join inner_join_hits_def by auto



lemma matches_same_interval:
  "r_chr r' = r_chr r \<Longrightarrow> r_start r' = r_start r \<Longrightarrow> r_end r' = r_end r \<Longrightarrow>
   matches r' x = matches r x"
  by (simp add: matches_iff)

subsection \<open>Rows of the aggregate view\<close>

lemma view_key_select_row: "view_key (select_row g) = group_key (fst g)"
  by (cases g, cases "fst g") (simp add: view_key_def select_row_def group_key_def)


lemma view_rows_of_key:
  "filter (\<lambda>v. view_key v = k) (region_background_agg rs xs) =
     sort_key order_key
       (map select_row (filter (\<lambda>g. group_key (fst g) = k) (group_by group_key (hits rs xs))))"
  by (simp add: region_background_agg_def filter_sort filter_map comp_def view_key_select_row)


lemma view_row_absent:
  assumes "k \<notin> group_key ` set (hits rs xs)"
  shows "filter (\<lambda>v. view_key v = k) (region_background_agg rs xs) = []"
  by (simp add: view_rows_of_key group_by_absent [OF assms])


text \<open>The scenarios of section 8 of the specification, computed.\<close>

lemma scenario_views:
  "region_background_agg [scenario_region] [scenario_background 100] =
     [\<lparr>v_chr = Some ''chrI'', v_start = Some 50, v_end = Some 200, background_hops = 1,
       regions_sample = Some ''reg1'', background_sample = Some ''bg1'', region_id = 1,
       associated_feature_systematic_id = Some ''YAL001'',
       associated_feature_common_name = Some ''none''\<rparr>] \<and>
   total_bg_hops [scenario_background 100] = [\<lparr>sample = Some ''bg1'', hops = 1\<rparr>] \<and>
   region_background_agg [scenario_region] [scenario_background 300] = [] \<and>
   region_background_agg [scenario_region] [] = []"
  by (simp add: region_background_agg_def hits_def left_join_def where_clause_def x_col_def
        sql_and_def sql_eq_def sql_between_def sql_le_def select_row_def total_bg_hops_def
        scenario_region_def scenario_background_def scenario_background_df_def
        stored_background_def)



text \<open>
  C2. When no background row with sample label \<open>s\<close> matches the region row \<open>r\<close>, the view
  has no row with the key of \<open>r\<close> and \<open>s\<close>. The LEFT JOIN without ON, filtered by the WHERE
  clause, yields the pairs of the inner join over the match predicate, so the view is the
  one computed from the inner join.
\<close>

theorem region_background_agg_no_match_no_row:
  "region_background_agg rs xs =
     sort_key order_key (map select_row (group_by group_key (inner_join_hits rs xs))) \<and>
   ((\<forall>x \<in> set xs. x_sample x = s \<longrightarrow> \<not> matches r x) \<longrightarrow>
      filter (\<lambda>v. view_key v = (r_sample r, s, r_chr r, r_start r, r_end r, r_id r))
        (region_background_agg rs xs) = [])"
proof (intro conjI impI)
  show "region_background_agg rs xs =
     sort_key order_key (map select_row (group_by group_key (inner_join_hits rs xs)))"
    by (simp add: region_background_agg_def hits_inner_join)
next
  assume none: "\<forall>x \<in> set xs. x_sample x = s \<longrightarrow> \<not> matches r x"
  have "(r_sample r, s, r_chr r, r_start r, r_end r, r_id r) \<notin> group_key ` set (hits rs xs)"
  proof
    assume "(r_sample r, s, r_chr r, r_start r, r_end r, r_id r) \<in> group_key ` set (hits rs xs)"
    then obtain j where j: "j \<in> set (hits rs xs)"
      and k: "group_key j = (r_sample r, s, r_chr r, r_start r, r_end r, r_id r)" by auto
    from j obtain r' x' where j': "j = (r', Some x')" and x': "x' \<in> set xs" and m: "matches r' x'"
      by (auto simp: hits_iff)
    from k j' have same: "r_chr r' = r_chr r" "r_start r' = r_start r" "r_end r' = r_end r"
      and s: "x_sample x' = s"
      by (simp_all add: group_key_def x_col_def)
    from m matches_same_interval [OF same] have "matches r x'" by simp
    with none x' s show False by blast
  qed
  then show "filter (\<lambda>v. view_key v = (r_sample r, s, r_chr r, r_start r, r_end r, r_id r))
        (region_background_agg rs xs) = []"
    by (rule view_row_absent)
qed

theorem region_background_agg_no_match_no_row_witness:
  "\<not> matches scenario_region (scenario_background 300) \<and>
   filter (\<lambda>v. view_key v = (Some ''reg1'', Some ''bg1'', Some ''chrI'', Some 50, Some 200, 1))
     (region_background_agg [scenario_region] [scenario_background 300]) = []"
proof -
  have m: "\<not> matches scenario_region (scenario_background 300)"
    by (simp add: matches_def where_clause_def x_col_def sql_and_def sql_eq_def sql_between_def
          sql_le_def scenario_region_def scenario_background_def scenario_background_df_def
          stored_background_def)
  show ?thesis
    using region_background_agg_no_match_no_row [of "[scenario_region]" "[scenario_background 300]"
        "Some ''bg1''" scenario_region, THEN conjunct2] m
    by (simp add: scenario_region_def)
qed

text \<open>
  C3. For a sample label \<open>s\<close> carried by some row of \<open>background\<close>, the view \<open>total_bg_hops\<close>
  has exactly one row for \<open>s\<close>, and its \<open>hops\<close> is the number of background rows with that
  label; for a label no background row carries it has none.
\<close>

theorem total_bg_hops_counts:
  "(s \<in> x_sample ` set xs \<longrightarrow>
      filter (\<lambda>t. sample t = s) (total_bg_hops xs) =
        [\<lparr>sample = s, hops = length (filter (\<lambda>x. x_sample x = s) xs)\<rparr>]) \<and>
   (s \<notin> x_sample ` set xs \<longrightarrow> filter (\<lambda>t. sample t = s) (total_bg_hops xs) = [])"
proof -
  have rows: "filter (\<lambda>t. sample t = s) (total_bg_hops xs) =
      map (\<lambda>g. \<lparr>sample = x_sample (fst g), hops = length (snd g)\<rparr>)
        (filter (\<lambda>g. x_sample (fst g) = s) (group_by x_sample xs))"
    by (simp add: total_bg_hops_def filter_map comp_def split_def)
  show ?thesis
  proof (intro conjI impI)
    assume "s \<in> x_sample ` set xs"
    then obtain x where x: "x \<in> set xs" and s: "x_sample x = s" by auto
    from group_by_single [OF x, of x_sample] s
    obtain a where "filter (\<lambda>g. x_sample (fst g) = s) (group_by x_sample xs)
        = [(a, filter (\<lambda>b. x_sample b = s) xs)]" and "x_sample a = s"
      by auto
    then show "filter (\<lambda>t. sample t = s) (total_bg_hops xs) =
        [\<lparr>sample = s, hops = length (filter (\<lambda>x. x_sample x = s) xs)\<rparr>]"
      by (simp add: rows)
  next
    assume "s \<notin> x_sample ` set xs"
    from group_by_absent [OF this] show "filter (\<lambda>t. sample t = s) (total_bg_hops xs) = []"
      by (simp add: rows)
  qed
qed

theorem total_bg_hops_counts_witness:
  "filter (\<lambda>t. sample t = Some ''bg1'')
     (total_bg_hops [scenario_background 100, scenario_background 300]) =
     [\<lparr>sample = Some ''bg1'', hops = 2\<rparr>] \<and>
   filter (\<lambda>t. sample t = Some ''bg2'')
     (total_bg_hops [scenario_background 100, scenario_background 300]) = []"
  using total_bg_hops_counts [of "Some ''bg1''" "[scenario_background 100, scenario_background 300]"]
    total_bg_hops_counts [of "Some ''bg2''" "[scenario_background 100, scenario_background 300]"]
  by (simp add: scenario_background_def scenario_background_df_def stored_background_def)

text \<open>
  C5. The rows of the view \<open>region_background_agg\<close> are in ascending order of (region sample,
  background sample, chromosome, region start).
\<close>

theorem region_background_agg_ordered:
  "sorted (map order_key (region_background_agg rs xs))"
  by (simp add: region_background_agg_def)

section \<open>Properties of the bulk load\<close>

lemma background_data_stored: "background_data (stored_background i d) = d"
  by (simp add: background_data_def stored_background_def)

lemma to_sql_background_data:
  "map background_data (to_sql_background tbl ds) = map background_data tbl @ ds"
  by (induction ds arbitrary: tbl) (simp_all add: background_data_stored)

lemma foldl_to_sql_background_data:
  "map background_data (foldl to_sql_background tbl dfs) = map background_data tbl @ concat dfs"
  by (induction dfs arbitrary: tbl) (simp_all add: to_sql_background_data)

lemma regions_data_stored:
  "regions_data (stored_region df i d) = d\<lparr>r_common_name := stored_common_name df d\<rparr>"
  by (simp add: regions_data_def stored_region_def)

lemma insert_regions_data:
  "map regions_data (insert_regions df tbl ds) =
     map regions_data tbl @ map (\<lambda>d. d\<lparr>r_common_name := stored_common_name df d\<rparr>) ds"
  by (induction ds arbitrary: tbl) (simp_all add: regions_data_stored)

lemma to_sql_regions_data:
  "map regions_data (to_sql_regions tbl df) = map regions_data tbl @ df_data df"
  by (simp add: to_sql_regions_def df_data_def insert_regions_data)

lemma foldl_to_sql_regions_data:
  "map regions_data (foldl to_sql_regions tbl dfs) =
     map regions_data tbl @ concat (map df_data dfs)"
  by (induction dfs arbitrary: tbl) (simp_all add: to_sql_regions_data)

lemma to_sql_chr_map_Inr:
  "to_sql_chr_map tbl rows = Inr tbl' \<Longrightarrow>
     tbl' = tbl @ rows \<and> (\<forall>row \<in> set rows. seqlength row \<noteq> None)"
proof (induction rows arbitrary: tbl)
  case Nil
  then show ?case by simp
next
  case (Cons row rows)
  from Cons.prems have ok: "seqlength row \<noteq> None" "\<not> unique_conflict tbl row"
    and rest: "to_sql_chr_map (tbl @ [row]) rows = Inr tbl'"
    by (auto split: if_splits)
  from Cons.IH [OF rest] ok show ?case by simp
qed

lemma to_sql_chr_map_Inl:
  "to_sql_chr_map tbl rows = Inl e \<Longrightarrow> \<exists>x. e = IntegrityError x"
proof (induction rows arbitrary: tbl)
  case Nil
  then show ?case by simp
next
  case (Cons row rows)
  then show ?case by (auto split: if_splits)
qed

text \<open>
  Loading a chromosome a second time is refused: its non-NULL \<open>ucsc\<close> name clashes with the
  one stored.
\<close>

lemma chr_map_reload_rejected:
  "ucsc row \<noteq> None \<Longrightarrow> seqlength row \<noteq> None \<Longrightarrow>
     to_sql_chr_map (tbl @ [row]) [row] = Inl (IntegrityError (Unique_failed ''chr_map''))"
  by (simp add: unique_conflict_def clash_def)

subsection \<open>The three loading methods\<close>

lemma add_chr_map_Inr:
  assumes "add_chr_map df db = Inr db'"
  shows "chr_map db = None \<and> db' = db\<lparr>chr_map := Some df\<rparr> \<and>
         (\<forall>row \<in> set df. seqlength row \<noteq> None)"
proof -
  from assms have none: "chr_map db = None"
    by (cases "chr_map db") (simp_all add: add_chr_map_def)
  with assms obtain tbl where t: "to_sql_chr_map [] df = Inr tbl" and d: "db' = db\<lparr>chr_map := Some tbl\<rparr>"
    by (cases "to_sql_chr_map [] df") (auto simp: add_chr_map_def)
  from to_sql_chr_map_Inr [OF t] none d show ?thesis by simp
qed

lemma add_chr_map_Inl:
  assumes "add_chr_map df db = Inl (e, db')"
  shows "(chr_map db \<noteq> None \<and> e = OperationalError (Table_exists ''chr_map'') \<and> db' = db) \<or>
         (chr_map db = None \<and> (\<exists>x. e = IntegrityError x) \<and> db' = db\<lparr>chr_map := Some []\<rparr>)"
proof (cases "chr_map db")
  case None
  with assms obtain e' where "to_sql_chr_map [] df = Inl e'" and "e = e'"
    and "db' = db\<lparr>chr_map := Some []\<rparr>"
    by (cases "to_sql_chr_map [] df") (auto simp: add_chr_map_def)
  with to_sql_chr_map_Inl [of "[]" df e'] None show ?thesis by auto
next
  case (Some tbl)
  with assms show ?thesis by (simp add: add_chr_map_def)
qed

lemma add_background_Inr:
  assumes "add_background dfs db = Inr db'"
  shows "background db = None \<and>
         db' = db\<lparr>background := Some (foldl to_sql_background [] dfs), background_index := True\<rparr>"
  using assms by (cases "background db") (simp_all add: add_background_def split: if_splits)

lemma add_background_Inl:
  assumes "add_background dfs db = Inl (e, db')"
  shows "(background db \<noteq> None \<and> e = OperationalError (Table_exists ''background'') \<and> db' = db) \<or>
         (background db = None \<and> e = OperationalError (Index_exists ''background_index'') \<and>
          db' = db\<lparr>background := Some []\<rparr>)"
  using assms by (cases "background db") (auto simp: add_background_def split: if_splits)

lemma add_regions_Inr:
  assumes "add_regions dfs db = Inr db'"
  shows "regions db = None \<and>
         db' = db\<lparr>regions := Some (foldl to_sql_regions [] dfs), regions_index := True\<rparr>"
  using assms by (cases "regions db") (simp_all add: add_regions_def split: if_splits)

lemma add_regions_Inl:
  assumes "add_regions dfs db = Inl (e, db')"
  shows "(regions db \<noteq> None \<and> e = OperationalError (Table_exists ''regions'') \<and> db' = db) \<or>
         (regions db = None \<and> e = OperationalError (Index_exists ''regions_index'') \<and>
          db' = db\<lparr>regions := Some []\<rparr>)"
  using assms by (cases "regions db") (auto simp: add_regions_def split: if_splits)

subsection \<open>The provisioning sequence\<close>

lemma provision_Inr:
  assumes "provision res db = Inr db'"
  shows "chr_map db = None \<and> background db = None \<and> regions db = None \<and>
         chr_map db' = Some (yeast_chr_map res) \<and>
         background db' =
           Some (foldl to_sql_background [] [yeast_background_adh1 res, yeast_background_sir4 res]) \<and>
         regions db' =
           Some (foldl to_sql_regions [] [yeast_promoters_yiming res, yeast_promoters_not_orf res])"
proof -
  from assms obtain db1 where s1: "add_chr_map (yeast_chr_map res) db = Inr db1"
    and r1: "run_steps
       [add_background [yeast_background_adh1 res, yeast_background_sir4 res],
        add_regions [yeast_promoters_yiming res, yeast_promoters_not_orf res],
        create_region_background_view] db1 = Inr db'"
    by (cases "add_chr_map (yeast_chr_map res) db") (simp_all add: provision_def)
  from r1 obtain db2
    where s2: "add_background [yeast_background_adh1 res, yeast_background_sir4 res] db1 = Inr db2"
    and r2: "run_steps
       [add_regions [yeast_promoters_yiming res, yeast_promoters_not_orf res],
        create_region_background_view] db2 = Inr db'"
    by (cases "add_background [yeast_background_adh1 res, yeast_background_sir4 res] db1") simp_all
  from r2 obtain db3
    where s3: "add_regions [yeast_promoters_yiming res, yeast_promoters_not_orf res] db2 = Inr db3"
    and r3: "run_steps [create_region_background_view] db3 = Inr db'"
    by (cases "add_regions [yeast_promoters_yiming res, yeast_promoters_not_orf res] db2") simp_all
  from r3 have d: "db' = db3\<lparr>view_region_background_agg := True, view_total_bg_hops := True\<rparr>"
    by (simp add: create_region_background_view_def)
  from add_chr_map_Inr [OF s1] add_background_Inr [OF s2] add_regions_Inr [OF s3] d
  show ?thesis by simp
qed

lemma provision_Inl:
  assumes "provision res db = Inl (e, db')"
  shows "\<not> is_path_error e \<and>
         (chr_map db \<noteq> None \<longrightarrow> chr_map db' = chr_map db) \<and>
         (background db \<noteq> None \<longrightarrow> background db' = background db) \<and>
         (regions db \<noteq> None \<longrightarrow> regions db' = regions db)"
proof (cases "add_chr_map (yeast_chr_map res) db")
  case (Inl a)
  with assms have "add_chr_map (yeast_chr_map res) db = Inl (e, db')"
    by (simp add: provision_def)
  from add_chr_map_Inl [OF this] show ?thesis by (auto simp: is_path_error_def)
next
  case (Inr db1)
  from add_chr_map_Inr [OF Inr] have d1: "db1 = db\<lparr>chr_map := Some (yeast_chr_map res)\<rparr>"
    and c: "chr_map db = None" by simp_all
  from assms Inr have r1: "run_steps
       [add_background [yeast_background_adh1 res, yeast_background_sir4 res],
        add_regions [yeast_promoters_yiming res, yeast_promoters_not_orf res],
        create_region_background_view] db1 = Inl (e, db')"
    by (simp add: provision_def)
  show ?thesis
  proof (cases "add_background [yeast_background_adh1 res, yeast_background_sir4 res] db1")
    case (Inl a)
    with r1 have "add_background [yeast_background_adh1 res, yeast_background_sir4 res] db1
        = Inl (e, db')" by simp
    from add_background_Inl [OF this] d1 c show ?thesis by (auto simp: is_path_error_def)
  next
    case (Inr db2)
    from add_background_Inr [OF Inr]
    have d2: "db2 = db1\<lparr>background := Some (foldl to_sql_background []
        [yeast_background_adh1 res, yeast_background_sir4 res]), background_index := True\<rparr>"
      and b: "background db1 = None" by simp_all
    from r1 Inr have r2: "run_steps
       [add_regions [yeast_promoters_yiming res, yeast_promoters_not_orf res],
        create_region_background_view] db2 = Inl (e, db')" by simp
    have "add_regions [yeast_promoters_yiming res, yeast_promoters_not_orf res] db2 = Inl (e, db')"
      using r2
      by (cases "add_regions [yeast_promoters_yiming res, yeast_promoters_not_orf res] db2")
         (simp_all add: create_region_background_view_def)
    from add_regions_Inl [OF this] d1 d2 c b show ?thesis by (auto simp: is_path_error_def)
  qed
qed

lemma init_Inr:
  assumes "DatabaseAPINew_init res fs db_loc = Inr fs'"
  shows "\<exists>loc db db'. db_loc = PosixPath loc \<and> path_exists fs (parent (resolve fs loc)) \<and>
           connect fs (resolve fs loc) = Inr db \<and> provision res db = Inr db' \<and>
           fs' = write_database fs (resolve fs loc) db'"
proof (cases db_loc)
  case (PosixPath loc)
  with assms have ex: "path_exists fs (parent (resolve fs loc))"
    by (simp add: DatabaseAPINew_init_def Let_def split: if_splits)
  with assms PosixPath obtain db where c: "connect fs (resolve fs loc) = Inr db"
    by (cases "connect fs (resolve fs loc)") (simp_all add: DatabaseAPINew_init_def Let_def)
  with assms PosixPath ex obtain db' where "provision res db = Inr db'"
    and "fs' = write_database fs (resolve fs loc) db'"
    by (cases "provision res db") (auto simp: DatabaseAPINew_init_def Let_def)
  with PosixPath ex c show ?thesis by blast
next
  case (Str s)
  with assms show ?thesis by (simp add: DatabaseAPINew_init_def)
next
  case NoneType
  with assms show ?thesis by (simp add: DatabaseAPINew_init_def)
qed

text \<open>
  A run on a path that names no file yet, in an existing directory, returns as soon as the
  chromosome map passes the checks of its table.
\<close>

lemma init_fresh_returns:
  assumes "entries fs (resolve fs loc) = None"
    and "entries fs (parent (resolve fs loc)) = Some Directory"
    and "to_sql_chr_map [] (yeast_chr_map res) = Inr cm"
  shows "\<exists>fs'. DatabaseAPINew_init res fs (PosixPath loc) = Inr fs'"
proof -
  have c: "connect fs (resolve fs loc) = Inr empty_database"
    using assms(1,2) by (simp add: connect_def)
  have e: "path_exists fs (parent (resolve fs loc))"
    using assms(2) by (simp add: path_exists_def)
  have "\<exists>db'. provision res empty_database = Inr db'"
    using assms(3)
    by (simp add: provision_def add_chr_map_def add_background_def add_regions_def
          create_region_background_view_def empty_database_def)
  then show ?thesis
    by (auto simp: DatabaseAPINew_init_def Let_def c e)
qed

lemma connect_Inl: "connect fs p = Inl e \<Longrightarrow> \<not> is_path_error e"
  by (auto simp: connect_def is_path_error_def split: option.splits fs_entry.splits if_splits)

section \<open>Claims about loading and provisioning\<close>

lemma scenario_init:
  "DatabaseAPINew_init scenario_resources scenario_fs (PosixPath scenario_db_loc) =
     Inr (write_database scenario_fs scenario_db_loc scenario_provisioned)"
proof -
  have c: "connect scenario_fs scenario_db_loc = Inr empty_database"
    by (simp add: connect_def scenario_fs_def scenario_db_loc_def scenario_tmp_def parent_def)
  have s1: "add_chr_map [scenario_chr_map] empty_database =
      Inr (empty_database\<lparr>chr_map := Some [scenario_chr_map]\<rparr>)"
    by (simp add: add_chr_map_def empty_database_def scenario_chr_map_def unique_conflict_def)
  have s2: "add_background [scenario_adh1, scenario_sir4]
        (empty_database\<lparr>chr_map := Some [scenario_chr_map]\<rparr>) =
      Inr (empty_database\<lparr>chr_map := Some [scenario_chr_map],
        background := Some [scenario_background 100, stored_background 2 (scenario_background_df 300)],
        background_index := True\<rparr>)"
    by (simp add: add_background_def empty_database_def scenario_background_def next_rowid_def
          stored_background_def scenario_adh1_def scenario_sir4_def)
  have s3: "add_regions [scenario_regions_df, \<lparr>has_common_name = True, df_rows = []\<rparr>]
        (empty_database\<lparr>chr_map := Some [scenario_chr_map],
        background := Some [scenario_background 100, stored_background 2 (scenario_background_df 300)],
        background_index := True\<rparr>) =
      Inr (empty_database\<lparr>chr_map := Some [scenario_chr_map],
        background := Some [scenario_background 100, stored_background 2 (scenario_background_df 300)],
        background_index := True, regions := Some [scenario_region], regions_index := True\<rparr>)"
    by (simp add: add_regions_def empty_database_def to_sql_regions_def scenario_regions_df_def
          scenario_region_def stored_region_def stored_common_name_def next_rowid_def)
  have p: "provision scenario_resources empty_database = Inr scenario_provisioned"
    by (simp add: provision_def scenario_resources_def s1 s2 s3 create_region_background_view_def)
       (simp add: scenario_provisioned_def empty_database_def)
  have r: "resolve scenario_fs scenario_db_loc = scenario_db_loc"
    by (simp add: scenario_fs_def)
  have e: "path_exists scenario_fs (parent scenario_db_loc)"
    by (simp add: scenario_fs_def scenario_db_loc_def scenario_tmp_def parent_def path_exists_def)
  show ?thesis
    by (simp add: DatabaseAPINew_init_def Let_def r e c p)
qed

text \<open>
  C4. After a provisioning run that returns, the database file at the resolved path holds
  the three tables, and each table holds exactly the rows of the row-sets fed to it, in
  their order and under their columns (the id and a defaulted \<open>common_name\<close> are added by
  the table); so its row count is the sum of the row counts of those row-sets.
\<close>

theorem provisioning_row_count_conservation:
  assumes "DatabaseAPINew_init res fs db_loc = Inr fs'"
  shows "\<exists>loc db cm bg rg.
     db_loc = PosixPath loc \<and> entries fs' (resolve fs loc) = Some (Database_file db) \<and>
     chr_map db = Some cm \<and> background db = Some bg \<and> regions db = Some rg \<and>
     cm = yeast_chr_map res \<and>
     map background_data bg = yeast_background_adh1 res @ yeast_background_sir4 res \<and>
     map regions_data rg =
       df_data (yeast_promoters_yiming res) @ df_data (yeast_promoters_not_orf res) \<and>
     length cm = length (yeast_chr_map res) \<and>
     length bg = length (yeast_background_adh1 res) + length (yeast_background_sir4 res) \<and>
     length rg = length (df_rows (yeast_promoters_yiming res)) +
                 length (df_rows (yeast_promoters_not_orf res))"
proof -
  from init_Inr [OF assms] obtain loc db0 db
    where loc: "db_loc = PosixPath loc" and p: "provision res db0 = Inr db"
      and fs': "fs' = write_database fs (resolve fs loc) db"
    by blast
  let ?bg = "foldl to_sql_background [] [yeast_background_adh1 res, yeast_background_sir4 res]"
  let ?rg = "foldl to_sql_regions [] [yeast_promoters_yiming res, yeast_promoters_not_orf res]"
  from provision_Inr [OF p] have t: "chr_map db = Some (yeast_chr_map res)"
    "background db = Some ?bg" "regions db = Some ?rg" by simp_all
  have b: "map background_data ?bg = yeast_background_adh1 res @ yeast_background_sir4 res"
    by (simp add: to_sql_background_data)
  have r: "map regions_data ?rg =
      df_data (yeast_promoters_yiming res) @ df_data (yeast_promoters_not_orf res)"
    by (simp add: to_sql_regions_data)
  have lb: "length ?bg = length (yeast_background_adh1 res) + length (yeast_background_sir4 res)"
    using arg_cong [OF b, of length] by simp
  have lr: "length ?rg = length (df_rows (yeast_promoters_yiming res)) +
      length (df_rows (yeast_promoters_not_orf res))"
    using arg_cong [OF r, of length] by (simp add: df_data_def)
  have e: "entries fs' (resolve fs loc) = Some (Database_file db)"
    by (simp add: fs' write_database_def)
  from loc e t b r lb lr show ?thesis by blast
qed

theorem provisioning_row_count_conservation_witness:
  "\<exists>db cm bg rg.
     entries (write_database scenario_fs scenario_db_loc scenario_provisioned) scenario_db_loc
       = Some (Database_file db) \<and>
     chr_map db = Some cm \<and> background db = Some bg \<and> regions db = Some rg \<and>
     length cm = 1 \<and> length bg = 2 \<and> length rg = 1"
proof -
  from provisioning_row_count_conservation [OF scenario_init]
  obtain loc db cm bg rg where "PosixPath scenario_db_loc = PosixPath loc"
    and "entries (write_database scenario_fs scenario_db_loc scenario_provisioned)
           (resolve scenario_fs loc) = Some (Database_file db)"
    and "chr_map db = Some cm" "background db = Some bg" "regions db = Some rg"
    and "length cm = length (yeast_chr_map scenario_resources)"
    and "length bg = length (yeast_background_adh1 scenario_resources) +
           length (yeast_background_sir4 scenario_resources)"
    and "length rg = length (df_rows (yeast_promoters_yiming scenario_resources)) +
           length (df_rows (yeast_promoters_not_orf scenario_resources))"
    by blast
  then show ?thesis
    by (simp add: scenario_resources_def scenario_regions_df_def scenario_fs_def
          scenario_adh1_def scenario_sir4_def)
qed




text \<open>
  C7. CREATE TABLE has no IF NOT EXISTS: on a database that already has the table, each
  loading method raises \<open>OperationalError\<close> (table already exists) and changes nothing. A
  provisioning run against a database file that has one of the three tables raises, and
  the tables that were there are left as they were.
\<close>

theorem existing_table_is_an_error:
  "(chr_map db \<noteq> None \<longrightarrow>
      add_chr_map cdf db = Inl (OperationalError (Table_exists ''chr_map''), db)) \<and>
   (background db \<noteq> None \<longrightarrow>
      add_background bdfs db = Inl (OperationalError (Table_exists ''background''), db)) \<and>
   (regions db \<noteq> None \<longrightarrow>
      add_regions rdfs db = Inl (OperationalError (Table_exists ''regions''), db)) \<and>
   (entries fs (resolve fs loc) = Some (Database_file db) \<and>
    (chr_map db \<noteq> None \<or> background db \<noteq> None \<or> regions db \<noteq> None) \<longrightarrow>
      (\<exists>e fs' db'. DatabaseAPINew_init res fs (PosixPath loc) = Inl (e, fs') \<and>
         entries fs' (resolve fs loc) = Some (Database_file db') \<and>
         (chr_map db \<noteq> None \<longrightarrow> chr_map db' = chr_map db) \<and>
         (background db \<noteq> None \<longrightarrow> background db' = background db) \<and>
         (regions db \<noteq> None \<longrightarrow> regions db' = regions db)))"
proof (intro conjI impI)
  assume "chr_map db \<noteq> None"
  then show "add_chr_map cdf db = Inl (OperationalError (Table_exists ''chr_map''), db)"
    by (cases "chr_map db") (simp_all add: add_chr_map_def)
next
  assume "background db \<noteq> None"
  then show "add_background bdfs db = Inl (OperationalError (Table_exists ''background''), db)"
    by (cases "background db") (simp_all add: add_background_def)
next
  assume "regions db \<noteq> None"
  then show "add_regions rdfs db = Inl (OperationalError (Table_exists ''regions''), db)"
    by (cases "regions db") (simp_all add: add_regions_def)
next
  assume h: "entries fs (resolve fs loc) = Some (Database_file db) \<and>
    (chr_map db \<noteq> None \<or> background db \<noteq> None \<or> regions db \<noteq> None)"
  let ?p = "resolve fs loc"
  let ?goal = "\<exists>e fs' db'. DatabaseAPINew_init res fs (PosixPath loc) = Inl (e, fs') \<and>
         entries fs' ?p = Some (Database_file db') \<and>
         (chr_map db \<noteq> None \<longrightarrow> chr_map db' = chr_map db) \<and>
         (background db \<noteq> None \<longrightarrow> background db' = background db) \<and>
         (regions db \<noteq> None \<longrightarrow> regions db' = regions db)"
  show ?goal
  proof (cases "path_exists fs (parent ?p)")
    case False
    then have "DatabaseAPINew_init res fs (PosixPath loc) = Inl (FileNotFoundError ?p, fs)"
      by (simp add: DatabaseAPINew_init_def Let_def)
    with h show ?thesis by blast
  next
    case True
    from h have c: "connect fs ?p = Inr db" by (simp add: connect_def)
    show ?thesis
    proof (cases "provision res db")
      case (Inl a)
      obtain e db' where a: "a = (e, db')" by (cases a)
      from Inl a True c
      have i: "DatabaseAPINew_init res fs (PosixPath loc) = Inl (e, write_database fs ?p db')"
        by (simp add: DatabaseAPINew_init_def Let_def)
      have w: "entries (write_database fs ?p db') ?p = Some (Database_file db')"
        by (simp add: write_database_def)
      from provision_Inl [of res db e db'] Inl a i w show ?thesis by blast
    next
      case (Inr db')
      from provision_Inr [OF Inr] h show ?thesis by simp
    qed
  qed
qed

theorem existing_table_is_an_error_witness:
  "add_background [scenario_sir4] scenario_loaded =
     Inl (OperationalError (Table_exists ''background''), scenario_loaded) \<and>
   (\<exists>e fs' db'. DatabaseAPINew_init scenario_resources
        (write_database scenario_fs scenario_db_loc scenario_loaded) (PosixPath scenario_db_loc)
        = Inl (e, fs') \<and>
      entries fs' scenario_db_loc = Some (Database_file db') \<and>
      background db' = Some [scenario_background 100])"
  using existing_table_is_an_error [of scenario_loaded "[]" "[scenario_sir4]" "[]"
      "write_database scenario_fs scenario_db_loc scenario_loaded" scenario_db_loc
      scenario_resources]
  by (simp add: scenario_loaded_def write_database_def scenario_fs_def)



text \<open>
  C9, as claimed: a row with a non-positive sequence length would be rejected. The schema
  declares \<^verbatim>\<open>"seqlength" INTEGER NOT NULL\<close> and no CHECK: a row with sequence length 0 (or
  -1) is accepted.
\<close>

theorem nonpositive_seqlength_counterexample:
  "to_sql_chr_map [] [scenario_chr_map\<lparr>seqlength := Some 0\<rparr>] =
     Inr [scenario_chr_map\<lparr>seqlength := Some 0\<rparr>] \<and>
   add_chr_map [scenario_chr_map\<lparr>seqlength := Some (- 1)\<rparr>] empty_database =
     Inr (empty_database\<lparr>chr_map := Some [scenario_chr_map\<lparr>seqlength := Some (- 1)\<rparr>]\<rparr>)"
  by (simp add: add_chr_map_def empty_database_def unique_conflict_def)

text \<open>
  C9, amended. Every row accepted into \<open>chr_map\<close> has a sequence length that is present:
  an insert that returns has stored the whole row-set and none of its rows has a NULL
  \<open>seqlength\<close>; a row-set with such a row is rejected with an integrity error. The sign of
  the sequence length is not checked: a row with any integer there is accepted when no
  unique column clashes.
\<close>

theorem chr_map_seqlength_not_null:
  "(to_sql_chr_map tbl rows = Inr tbl' \<longrightarrow>
      tbl' = tbl @ rows \<and> (\<forall>row \<in> set rows. seqlength row \<noteq> None)) \<and>
   (row \<in> set rows \<and> seqlength row = None \<longrightarrow>
      (\<exists>x. to_sql_chr_map tbl rows = Inl (IntegrityError x))) \<and>
   (add_chr_map rows db = Inr db' \<longrightarrow>
      chr_map db' = Some rows \<and> (\<forall>row \<in> set rows. seqlength row \<noteq> None)) \<and>
   (seqlength row = Some n \<and> \<not> unique_conflict tbl row \<longrightarrow>
      to_sql_chr_map tbl [row] = Inr (tbl @ [row]))"
proof (intro conjI impI)
  assume "to_sql_chr_map tbl rows = Inr tbl'"
  from to_sql_chr_map_Inr [OF this]
  show "tbl' = tbl @ rows" and "\<forall>row \<in> set rows. seqlength row \<noteq> None" by simp_all
next
  assume h: "row \<in> set rows \<and> seqlength row = None"
  show "\<exists>x. to_sql_chr_map tbl rows = Inl (IntegrityError x)"
  proof (cases "to_sql_chr_map tbl rows")
    case (Inl e)
    with to_sql_chr_map_Inl [OF Inl] show ?thesis by simp
  next
    case (Inr t)
    from to_sql_chr_map_Inr [OF Inr] h show ?thesis by auto
  qed
next
  assume "add_chr_map rows db = Inr db'"
  from add_chr_map_Inr [OF this]
  show "chr_map db' = Some rows" and "\<forall>row \<in> set rows. seqlength row \<noteq> None" by simp_all
next
  assume "seqlength row = Some n \<and> \<not> unique_conflict tbl row"
  then show "to_sql_chr_map tbl [row] = Inr (tbl @ [row])" by simp
qed

theorem chr_map_seqlength_not_null_witness:
  "(\<exists>x. to_sql_chr_map [] [scenario_chr_map\<lparr>seqlength := None\<rparr>] = Inl (IntegrityError x)) \<and>
   to_sql_chr_map [] [scenario_chr_map] = Inr [scenario_chr_map]"
  using chr_map_seqlength_not_null [of "[]" "[scenario_chr_map\<lparr>seqlength := None\<rparr>]" "[]"
      "scenario_chr_map\<lparr>seqlength := None\<rparr>" empty_database empty_database 0]
    chr_map_seqlength_not_null [of "[]" "[scenario_chr_map]" "[scenario_chr_map]"
      scenario_chr_map empty_database empty_database 230218]
  by (simp add: scenario_chr_map_def unique_conflict_def)

text \<open>
  C10. The path is validated before anything touches the database: when the constructor
  raises a path error (\<open>AttributeError\<close> or \<open>FileNotFoundError\<close>) the file system is
  exactly as it was, so no database file has been created.
\<close>

theorem path_error_leaves_filesystem:
  assumes "DatabaseAPINew_init res fs db_loc = Inl (e, fs')" and "is_path_error e"
  shows "fs' = fs"
proof (cases db_loc)
  case (PosixPath loc)
  let ?p = "resolve fs loc"
  show ?thesis
  proof (cases "path_exists fs (parent ?p)")
    case False
    with assms PosixPath show ?thesis by (simp add: DatabaseAPINew_init_def Let_def)
  next
    case True
    show ?thesis
    proof (cases "connect fs ?p")
      case (Inl err)
      with assms PosixPath True show ?thesis by (simp add: DatabaseAPINew_init_def Let_def)
    next
      case (Inr db)
      show ?thesis
      proof (cases "provision res db")
        case (Inl a)
        obtain err db' where a: "a = (err, db')" by (cases a)
        from assms PosixPath True Inr Inl a have "e = err"
          by (simp add: DatabaseAPINew_init_def Let_def)
        with provision_Inl [of res db err db'] Inl a assms(2) show ?thesis by simp
      next
        case (Inr db')
        with assms PosixPath True \<open>connect fs ?p = Inr db\<close> show ?thesis
          by (simp add: DatabaseAPINew_init_def Let_def)
      qed
    qed
  qed
next
  case (Str s)
  with assms show ?thesis by (simp add: DatabaseAPINew_init_def)
next
  case NoneType
  with assms show ?thesis by (simp add: DatabaseAPINew_init_def)
qed

theorem path_error_leaves_filesystem_witness:
  "snd (projl (DatabaseAPINew_init scenario_resources scenario_fs
      (PosixPath [''/'', ''missing'', ''test.db'']))) = scenario_fs"
proof -
  have i: "DatabaseAPINew_init scenario_resources scenario_fs
      (PosixPath [''/'', ''missing'', ''test.db'']) =
      Inl (FileNotFoundError [''/'', ''missing'', ''test.db''],
           snd (projl (DatabaseAPINew_init scenario_resources scenario_fs
             (PosixPath [''/'', ''missing'', ''test.db'']))))"
    by (simp add: DatabaseAPINew_init_def Let_def scenario_fs_def scenario_tmp_def
          path_exists_def parent_def)
  have p: "is_path_error (FileNotFoundError [''/'', ''missing'', ''test.db''])"
    by (simp add: is_path_error_def)
  from path_error_leaves_filesystem [OF i p] show ?thesis .
qed

end
